theory Spec2Isabelle
  imports Complex_Main
begin

section \<open>Conventions of the embedding\<close>

text \<open>
  The sources are numpy programs. A float64 scalar is modelled by a real number, so
  rounding, NaN and signed zeros are idealised away; the one non-finite value the code can
  produce on the modelled paths, the quotient \<open>1. / 0.\<close> of numpy scalars, is kept (type
  \<open>npfloat\<close> below). A one-dimensional array is a list, a two-dimensional array a list
  of rows. Every exception the modelled lines can raise is a value of \<open>error\<close>.

  numpy's global random state is threaded explicitly: a value of type \<open>'g\<close> is the state
  of the generator, and the record \<open>np_random\<close> holds the two samplers of
  \<^verbatim>\<open>np.random\<close> the sources call. Nothing is assumed about the samplers in the
  definitions; what a theorem needs of them is stated as a hypothesis.
\<close>

datatype error = ValueError | IndexError | NameError | TypeError

record 'g np_random =
  random_rand :: "nat \<Rightarrow> 'g \<Rightarrow> real list \<times> 'g"
  random_poisson :: "real list \<Rightarrow> 'g \<Rightarrow> nat list \<times> 'g"


text \<open>
  A deterministic random source on which the definitions can be run: the state counts the
  numbers drawn so far, a uniform draw is the reciprocal of a counter, and a Poisson draw
  is the integer part of its mean.
\<close>

definition counter_random :: "nat np_random" where
  "counter_random =
     \<lparr> random_rand = (\<lambda>n g. (map (\<lambda>i. 1 / real (g + i + 2)) [0..<n], g + n)),
       random_poisson = (\<lambda>lam g. (map (\<lambda>x. nat \<lfloor>x\<rfloor>) lam, g + length lam)) \<rparr>"

section \<open>EventGenerator.py: power-law energies\<close>

text \<open>
  \<^verbatim>\<open>randPowerLaw(alpha, Ntotal, emin, emax)\<close>, lines 14 to 22. \<open>powr\<close> is
  \<^verbatim>\<open>np.power\<close> on a positive base.
\<close>

definition randPowerLaw ::
  "'g np_random \<Rightarrow> real \<Rightarrow> nat \<Rightarrow> real \<Rightarrow> real \<Rightarrow> 'g \<Rightarrow> real list \<times> 'g" where
  "randPowerLaw R alpha Ntotal emin emax g =
     (if alpha = - 1 then
        (let part1 = ln emax;
             part2 = ln emin;
             (u, g') = random_rand R Ntotal g
         in (map (\<lambda>x. exp ((part1 - part2) * x + part2)) u, g'))
      else
        (let part1 = emax powr (alpha + 1);
             part2 = emin powr (alpha + 1);
             (u, g') = random_rand R Ntotal g
         in (map (\<lambda>x. ((part1 - part2) * x + part2) powr (1 / (alpha + 1))) u, g')))"

section \<open>numpy primitives used by the sources\<close>

text \<open>
  Indexing an array of length \<open>n\<close> with an integer: numpy counts a negative index from
  the end and raises IndexError outside \<open>-n \<le> i < n\<close>.
\<close>

definition resolve_index :: "nat \<Rightarrow> int \<Rightarrow> error + nat" where
  "resolve_index n i =
     (if 0 \<le> i \<and> i < int n then Inr (nat i)
      else if i < 0 \<and> - int n \<le> i then Inr (nat (int n + i))
      else Inl IndexError)"

definition np_index :: "'a list \<Rightarrow> int \<Rightarrow> error + 'a" where
  "np_index xs i =
     (case resolve_index (length xs) i of Inl err \<Rightarrow> Inl err | Inr j \<Rightarrow> Inr (xs ! j))"

text \<open>
  \<^verbatim>\<open>a[e][p] += ...\<close> on a two-dimensional array: the row is found first, then the
  column, each by numpy's indexing rule; \<open>f\<close> is the update of the entry.
\<close>

definition add_at :: "('a \<Rightarrow> 'a) \<Rightarrow> 'a list list \<Rightarrow> int \<Rightarrow> int \<Rightarrow> error + 'a list list" where
  "add_at f m e p =
     (case resolve_index (length m) e of
        Inl err \<Rightarrow> Inl err
      | Inr r \<Rightarrow>
          (case resolve_index (length (m ! r)) p of
             Inl err \<Rightarrow> Inl err
           | Inr c \<Rightarrow> Inr (m[r := (m ! r)[c := f (m ! r ! c)]])))"

text \<open>
  \<^verbatim>\<open>np.searchsorted(a, v)\<close> (side left) on an ascending array: the insertion index
  \<open>i\<close> with \<open>a[i-1] < v \<le> a[i]\<close>, which is the number of entries strictly below \<open>v\<close>.
\<close>

definition searchsorted :: "real list \<Rightarrow> real \<Rightarrow> nat" where
  "searchsorted a v = length (filter (\<lambda>x. x < v) a)"

text \<open>
  \<^verbatim>\<open>np.histogram(a, bins)\<close> with an array of bin edges: ValueError unless the edges
  increase monotonically; every bin is half-open but the last, which includes its right
  edge; values outside the edges are not counted. The result is the pair of the counts
  and the edges.
\<close>

definition in_bin :: "real list \<Rightarrow> nat \<Rightarrow> real \<Rightarrow> bool" where
  "in_bin edges i x =
     (edges ! i \<le> x \<and> (if Suc (Suc i) = length edges then x \<le> edges ! Suc i else x < edges ! Suc i))"

definition np_histogram :: "real list \<Rightarrow> real list \<Rightarrow> error + (nat list \<times> real list)" where
  "np_histogram a bins =
     (if sorted bins
      then Inr (map (\<lambda>i. length (filter (in_bin bins i) a)) [0..<length bins - 1], bins)
      else Inl ValueError)"




text \<open>
  \<^verbatim>\<open>np.random.poisson(lam)\<close>: one draw per entry of \<open>lam\<close>; ValueError when an entry
  is negative.
\<close>

definition np_poisson :: "'g np_random \<Rightarrow> real list \<Rightarrow> 'g \<Rightarrow> (error + nat list) \<times> 'g" where
  "np_poisson R lam g =
     (if list_ex (\<lambda>x. x < 0) lam then (Inl ValueError, g)
      else (let (k, g') = random_poisson R lam g in (Inr k, g')))"

text \<open>
  A Poisson sampler returns one count per mean, and the count of a zero mean is zero.
\<close>

definition poisson_ok :: "'g np_random \<Rightarrow> bool" where
  "poisson_ok R =
     (\<forall>lam g. length (fst (random_poisson R lam g)) = length lam \<and>
              (\<forall>i < length lam. lam ! i = 0 \<longrightarrow> fst (random_poisson R lam g) ! i = 0))"

text \<open>
  The quotient of numpy float scalars is not an exception at a zero divisor: \<open>1. / 0.\<close> is
  \<open>inf\<close> (with a warning), and \<open>inf\<close> absorbs every finite summand.
\<close>

datatype npfloat = Finite real | PosInf

fun np_add :: "npfloat \<Rightarrow> npfloat \<Rightarrow> npfloat" where
  "np_add (Finite a) (Finite b) = Finite (a + b)"
| "np_add (Finite a) PosInf = PosInf"
| "np_add PosInf y = PosInf"

definition one_over :: "real \<Rightarrow> npfloat" where
  "one_over a = (if a = 0 then PosInf else Finite (1 / a))"

definition radians :: "real \<Rightarrow> real" where
  "radians d = d * pi / 180"

text \<open>\<^verbatim>\<open>hp.pixelfunc.nside2npix\<close>: the number of pixels of a HEALPix map.\<close>

definition nside2npix :: "nat \<Rightarrow> nat" where
  "nside2npix nside = 12 * nside * nside"

text \<open>
  The constants of the module \<^verbatim>\<open>Defaults\<close> that the modelled lines read. The module
  is not among the sources, so its values are parameters.
\<close>

record Defaults =
  NEbin :: nat
  NSIDE :: nat
  map_logE_edge :: "real list"

section \<open>The effective-area table of the scripts\<close>

text \<open>
  \<^verbatim>\<open>IC3yrIntensityMap.py\<close> lines 54 to 62 and \<^verbatim>\<open>analyzeICdata.py\<close> lines 58 to
  62 cut the tabulated effective area into the flat column \<open>Aeff_table\<close> (70 energy rows
  of 200 zenith bins each), the lower energy edges \<open>logEmin\<close> and the lower edges
  \<open>cosZenith_min\<close> of the zenith bins. The file itself is external data; the three
  columns are the inputs here.
\<close>

record Aeff_tables =
  Aeff_table :: "real list"
  logEmin :: "real list"
  cosZenith_min :: "real list"

text \<open>
  The lookup both scripts perform, for an energy-bin index and the cosine of the zenith
  angle: \<^verbatim>\<open>Aeff_table[index_E * 200 + (np.searchsorted(cosZenith_min, c) - 1)]\<close>
  (\<^verbatim>\<open>IC3yrIntensityMap.py\<close> lines 66 and 68, \<^verbatim>\<open>analyzeICdata.py\<close> lines 66 and 72).
\<close>

definition index_coszenith :: "real list \<Rightarrow> real \<Rightarrow> int" where
  "index_coszenith cosZenith_min' c = int (searchsorted cosZenith_min' c) - 1"

definition Aeff_lookup :: "Aeff_tables \<Rightarrow> int \<Rightarrow> real \<Rightarrow> error + real" where
  "Aeff_lookup T index_E c =
     np_index (Aeff_table T) (index_E * 200 + index_coszenith (cosZenith_min T) c)"

text \<open>
  A regular grid of zenith-bin edges, \<open>-1, -0.99, ..., 0.99\<close>, and a table with the same
  area in every bin, to run the lookup on.
\<close>

definition regular_cos_edges :: "real list" where
  "regular_cos_edges = map (\<lambda>i. - 1 + real i / 100) [0..<200]"

definition flat_tables :: "real \<Rightarrow> Aeff_tables" where
  "flat_tables a =
     \<lparr> Aeff_table = replicate (70 * 200) a,
       logEmin = map (\<lambda>i. 2 + real i / 10) [0..<70],
       cosZenith_min = regular_cos_edges \<rparr>"

text \<open>
  The same grid with a table whose entry is its own position, so that a looked-up value
  names the bin it came from.
\<close>

definition numbered_tables :: Aeff_tables where
  "numbered_tables =
     \<lparr> Aeff_table = map real [0..<70 * 200],
       logEmin = map (\<lambda>i. 2 + real i / 10) [0..<70],
       cosZenith_min = regular_cos_edges \<rparr>"

section \<open>IC3yrIntensityMap.py: flux and counts maps\<close>

text \<open>
  One row of the event file: the columns the function reads (1: log energy, 3: right
  ascension, 4: declination, 6: zenith angle, the angles in degrees).
\<close>

record event =
  ev_logE :: real
  ev_ra :: real
  ev_dec :: real
  ev_zenith :: real

text \<open>Lines 64 and 65: the energy row of the table, events below the first edge in row 0.\<close>

definition index_E_Aeff_table :: "Aeff_tables \<Rightarrow> event \<Rightarrow> int" where
  "index_E_Aeff_table T ev =
     (let i = int (searchsorted (logEmin T) (ev_logE ev)) - 1 in if i = - 1 then 0 else i)"

text \<open>Line 66.\<close>

definition index_coszenith_Aeff_table :: "Aeff_tables \<Rightarrow> event \<Rightarrow> int" where
  "index_coszenith_Aeff_table T ev =
     index_coszenith (cosZenith_min T) (cos (radians (ev_zenith ev)))"

text \<open>Line 68, for one event.\<close>

definition Aeff_event :: "Aeff_tables \<Rightarrow> event \<Rightarrow> error + real" where
  "Aeff_event T ev =
     Aeff_lookup T (index_E_Aeff_table T ev) (cos (radians (ev_zenith ev)))"

text \<open>Line 68 is one vectorised lookup: it fails as a whole when one index is out of bounds.\<close>

fun all_or_error :: "(error + 'a) list \<Rightarrow> error + 'a list" where
  "all_or_error [] = Inr []"
| "all_or_error (Inl err # rs) = Inl err"
| "all_or_error (Inr x # rs) =
     (case all_or_error rs of Inl err \<Rightarrow> Inl err | Inr xs \<Rightarrow> Inr (x # xs))"

text \<open>Lines 104 and 105: the energy bin of the map.\<close>

definition index_map_logE :: "Defaults \<Rightarrow> event \<Rightarrow> int" where
  "index_map_logE D ev =
     (let i = int (searchsorted (map_logE_edge D) (ev_logE ev)) - 1 in if i = - 1 then 0 else i)"

text \<open>
  Line 109: the pixel of the event. \<^verbatim>\<open>hp.pixelfunc.ang2pix\<close> at the resolution
  \<^verbatim>\<open>Defaults.NSIDE\<close> is the library's function, a parameter here.
\<close>

definition index_map_pixel :: "(real \<Rightarrow> real \<Rightarrow> nat) \<Rightarrow> event \<Rightarrow> int" where
  "index_map_pixel ang2pix ev =
     int (ang2pix (radians (90 - ev_dec ev)) (radians (360 - ev_ra ev)))"

text \<open>The lines the diagnostic prints (lines 119 to 122), one constructor per line.\<close>

datatype printed =
  CheckEvent string nat
| Energy real int real real
| Coszenith real int real real
| Aeff real

text \<open>
  Lines 119 to 122. The second and third line read the table edges at the event's index
  and at the next one, each of which is an IndexError when the index is past the end.
\<close>

definition check_event_lines ::
  "string \<Rightarrow> Aeff_tables \<Rightarrow> nat \<Rightarrow> event \<Rightarrow> real \<Rightarrow> error + printed list" where
  "check_event_lines year T idx ev aeff =
     (let iE = index_E_Aeff_table T ev; ic = index_coszenith_Aeff_table T ev in
      case np_index (logEmin T) iE of Inl err \<Rightarrow> Inl err | Inr e0 \<Rightarrow>
      case np_index (logEmin T) (iE + 1) of Inl err \<Rightarrow> Inl err | Inr e1 \<Rightarrow>
      case np_index (cosZenith_min T) ic of Inl err \<Rightarrow> Inl err | Inr c0 \<Rightarrow>
      case np_index (cosZenith_min T) (ic + 1) of Inl err \<Rightarrow> Inl err | Inr c1 \<Rightarrow>
        Inr [CheckEvent year idx,
             Energy (ev_logE ev) iE e0 e1,
             Coszenith (cos (radians (ev_zenith ev))) ic c0 c1,
             Aeff aeff])"

text \<open>
  The state of the loop of lines 115 to 127: the flux map, the counts map and what has been
  printed.
\<close>

type_synonym maps_state = "npfloat list list \<times> real list list \<times> printed list"

text \<open>The body of the loop, for the event of index \<open>i\<close> with effective area \<open>aeff\<close>.\<close>

definition put_event ::
  "string \<Rightarrow> Defaults \<Rightarrow> Aeff_tables \<Rightarrow> (real \<Rightarrow> real \<Rightarrow> nat) \<Rightarrow> maps_state \<Rightarrow>
   nat \<times> event \<times> real \<Rightarrow> error + maps_state" where
  "put_event year D T ang2pix st x =
     (case st of (fluxmap, countsmap, out) \<Rightarrow>
      case x of (i, ev, aeff) \<Rightarrow>
        if aeff = 0 \<and> ev_zenith ev > 90 then
          (case check_event_lines year T i ev aeff of
             Inl err \<Rightarrow> Inl err
           | Inr ls \<Rightarrow> Inr (fluxmap, countsmap, out @ ls))
        else
          (case add_at (\<lambda>v. np_add v (one_over aeff)) fluxmap
                  (index_map_logE D ev) (index_map_pixel ang2pix ev) of
             Inl err \<Rightarrow> Inl err
           | Inr fluxmap' \<Rightarrow>
               (case add_at (\<lambda>v. v + 1) countsmap
                       (index_map_logE D ev) (index_map_pixel ang2pix ev) of
                  Inl err \<Rightarrow> Inl err
                | Inr countsmap' \<Rightarrow> Inr (fluxmap', countsmap', out))))"

fun put_events ::
  "string \<Rightarrow> Defaults \<Rightarrow> Aeff_tables \<Rightarrow> (real \<Rightarrow> real \<Rightarrow> nat) \<Rightarrow> maps_state \<Rightarrow>
   (nat \<times> event \<times> real) list \<Rightarrow> error + maps_state" where
  "put_events year D T ang2pix st [] = Inr st"
| "put_events year D T ang2pix st (x # xs) =
     (case put_event year D T ang2pix st x of
        Inl err \<Rightarrow> Inl err
      | Inr st' \<Rightarrow> put_events year D T ang2pix st' xs)"

text \<open>
  \<^verbatim>\<open>getFlux_Countmaps(year)\<close> with \<^verbatim>\<open>check=False\<close>, as the script calls it, from
  the loaded table and event list on: the effective areas of all events, the two maps of
  zeros, then the loop. The result also carries the printed lines.
\<close>

definition getFlux_Countmaps ::
  "string \<Rightarrow> Defaults \<Rightarrow> Aeff_tables \<Rightarrow> (real \<Rightarrow> real \<Rightarrow> nat) \<Rightarrow> event list \<Rightarrow>
   error + maps_state" where
  "getFlux_Countmaps year D T ang2pix AtmBG_file =
     (case all_or_error (map (Aeff_event T) AtmBG_file) of
        Inl err \<Rightarrow> Inl err
      | Inr aeffs \<Rightarrow>
          put_events year D T ang2pix
            (replicate (NEbin D) (replicate (nside2npix (NSIDE D)) (Finite 0)),
             replicate (NEbin D) (replicate (nside2npix (NSIDE D)) 0),
             [])
            (zip [0..<length AtmBG_file] (zip AtmBG_file aeffs)))"

section \<open>EventGenerator.py: the event generator\<close>

text \<open>
  A value an argument of the class's methods can hold: an array, or a tuple (what
  \<^verbatim>\<open>np.histogram\<close> returns).
\<close>

datatype pyval = PyArray "real list" | PyTuple "pyval list"

text \<open>
  The state of an \<^verbatim>\<open>EventGenerator\<close>: the two arrays the constructor computes
  (\<^verbatim>\<open>self.nevts\<close>, line 40, and \<^verbatim>\<open>self.Nastro_1yr_Aeffmax\<close>, lines 48 to 50),
  and the parameters of its two generator objects that the class itself writes.

  Modelled from the spec: the classes of the generator objects (\<^verbatim>\<open>Generator.py\<close>)
  are not among the sources. Their parameters are the spec's mutable-state parameter
  objects: \<^verbatim>\<open>nevents_expected()\<close> reads the value last set, and
  \<^verbatim>\<open>nevents_expected.set_value(v, clear_parent=False)\<close> replaces it. The method
  \<^verbatim>\<open>generate_event_maps\<close> of each object reads the object's parameters and the
  random state; it is a parameter of every function below that calls it, and what it
  yields for the one trial asked for (\<^verbatim>\<open>generate_event_maps(1)[0]\<close>) is either an
  exception or one map of event counts per energy bin.
\<close>

record EventGenerator =
  nevts :: "real list"
  Nastro_1yr_Aeffmax :: "real list"
  atm_nevents_expected :: "real list"
  astro_nevents_expected :: pyval
  astro_normalized_counts_map :: "real list"

type_synonym 'g generate_event_maps =
  "EventGenerator \<Rightarrow> 'g \<Rightarrow> (error + nat list list) \<times> 'g"

text \<open>
  The constructor, from the loaded one-year event numbers and the computed signal
  expectation on: line 41 hands \<^verbatim>\<open>self.nevts\<close> to the atmospheric generator as its
  expected event numbers. The two parameters of the signal generator are written by
  \<^verbatim>\<open>astroEvent_galaxy\<close> before every use, so their first values do not matter.
\<close>

definition EventGenerator_init :: "real list \<Rightarrow> real list \<Rightarrow> EventGenerator" where
  "EventGenerator_init nevts0 Nastro0 =
     \<lparr> nevts = nevts0,
       Nastro_1yr_Aeffmax = Nastro0,
       atm_nevents_expected = nevts0,
       astro_nevents_expected = PyArray [],
       astro_normalized_counts_map = [] \<rparr>"

text \<open>\<^verbatim>\<open>astroEvent_galaxy(intrinsicCounts, normalized_counts_map)\<close>, lines 63 to 83.\<close>

definition astroEvent_galaxy ::
  "'g generate_event_maps \<Rightarrow> EventGenerator \<Rightarrow> pyval \<Rightarrow> real list \<Rightarrow> 'g \<Rightarrow>
   (error + nat list list) \<times> EventGenerator \<times> 'g" where
  "astroEvent_galaxy astro_gen s intrinsicCounts normalized_counts_map g =
     (let s' = s\<lparr> astro_normalized_counts_map := normalized_counts_map,
                   astro_nevents_expected := intrinsicCounts \<rparr>;
          (maps, g') = astro_gen s' g
      in (maps, s', g'))"

text \<open>
  \<^verbatim>\<open>astroEvent_galaxy_powerlaw(Ntotal, normalized_counts_map, alpha, emin, emax)\<close>,
  lines 87 to 110. Line 109 keeps the whole result of \<^verbatim>\<open>np.histogram\<close>, the pair of
  counts and edges, and line 110 passes it on.
\<close>

definition astroEvent_galaxy_powerlaw ::
  "'g np_random \<Rightarrow> 'g generate_event_maps \<Rightarrow> Defaults \<Rightarrow> EventGenerator \<Rightarrow>
   nat \<Rightarrow> real list \<Rightarrow> real \<Rightarrow> real \<Rightarrow> real \<Rightarrow> 'g \<Rightarrow>
   (error + nat list list) \<times> EventGenerator \<times> 'g" where
  "astroEvent_galaxy_powerlaw R astro_gen D s Ntotal normalized_counts_map alpha emin emax g =
     (let (energy, g1) = randPowerLaw R alpha Ntotal emin emax g in
      case np_histogram (map (log 10) energy) (map_logE_edge D) of
        Inl err \<Rightarrow> (Inl err, s, g1)
      | Inr (hist, bin_edges) \<Rightarrow>
          astroEvent_galaxy astro_gen s
            (PyTuple [PyArray (map real hist), PyArray bin_edges]) normalized_counts_map g1)"

text \<open>\<^verbatim>\<open>atmEvent(duration_year)\<close>, lines 132 to 147.\<close>

definition atmEvent ::
  "'g np_random \<Rightarrow> 'g generate_event_maps \<Rightarrow> EventGenerator \<Rightarrow> real \<Rightarrow> 'g \<Rightarrow>
   (error + nat list list) \<times> EventGenerator \<times> 'g" where
  "atmEvent R atm_gen s duration_year g =
     (case np_poisson R (map (\<lambda>x. x * duration_year) (atm_nevents_expected s)) g of
        (Inl err, g1) \<Rightarrow> (Inl err, s, g1)
      | (Inr eventnumber_Ebin, g1) \<Rightarrow>
          (let s' = s\<lparr> atm_nevents_expected := map real eventnumber_Ebin \<rparr>;
               (maps, g2) = atm_gen s' g1
           in (maps, s', g2)))"







section \<open>The generators and the fit, from the spec\<close>

text \<open>
  Modelled from the spec: \<^verbatim>\<open>Generator.py\<close> (the classes \<^verbatim>\<open>AtmGenerator\<close> and
  \<^verbatim>\<open>AstroGenerator_v2\<close> with their method \<^verbatim>\<open>generate_event_maps\<close>) is not among
  the sources. The spec's Event Generator places, for each energy bin, the bin's total
  number of events at sampled pixels, "accumulating one count per drawn pixel": the
  background events at pixels sampled from the background angular distribution with a
  uniform azimuth, the signal events at pixels sampled from the template as a categorical
  distribution, after drawing the bin's total from a Poisson distribution of the expected
  count. The two pixel samplers are parameters; a map of counts is a list of natural
  numbers ("counts are integers, never fractional").
\<close>

record 'g pixel_sampler =
  atm_pixels :: "nat \<Rightarrow> nat \<Rightarrow> 'g \<Rightarrow> nat list \<times> 'g"
  template_pixels :: "real list \<Rightarrow> nat \<Rightarrow> 'g \<Rightarrow> nat list \<times> 'g"

fun accumulate :: "nat list \<Rightarrow> nat list \<Rightarrow> error + nat list" where
  "accumulate m [] = Inr m"
| "accumulate m (p # ps) =
     (if p < length m then accumulate (m[p := m ! p + 1]) ps else Inl IndexError)"

fun place_events ::
  "(nat \<Rightarrow> nat \<Rightarrow> 'g \<Rightarrow> nat list \<times> 'g) \<Rightarrow> nat \<Rightarrow> nat \<Rightarrow> nat list \<Rightarrow> 'g \<Rightarrow>
   (error + nat list list) \<times> 'g" where
  "place_events draw npix b [] g = (Inr [], g)"
| "place_events draw npix b (n # ns) g =
     (case draw b n g of (pixels, g1) \<Rightarrow>
      case accumulate (replicate npix 0) pixels of
        Inl err \<Rightarrow> (Inl err, g1)
      | Inr m \<Rightarrow>
          (case place_events draw npix (Suc b) ns g1 of
             (Inl err, g2) \<Rightarrow> (Inl err, g2)
           | (Inr ms, g2) \<Rightarrow> (Inr (m # ms), g2)))"

text \<open>
  Modelled from the spec: the background generator's \<^verbatim>\<open>generate_event_maps\<close>. The
  expected event numbers it finds are the counts \<^verbatim>\<open>atmEvent\<close> has drawn and stored;
  it places that many events per bin on a map of \<^verbatim>\<open>nside2npix(NSIDE)\<close> pixels.
\<close>

definition atm_generate_event_maps ::
  "'g pixel_sampler \<Rightarrow> Defaults \<Rightarrow> 'g generate_event_maps" where
  "atm_generate_event_maps S D s g =
     place_events (atm_pixels S) (nside2npix (NSIDE D)) 0
       (map (\<lambda>x. nat \<lfloor>x\<rfloor>) (atm_nevents_expected s)) g"

text \<open>
  Modelled from the spec: the signal generator's \<^verbatim>\<open>generate_event_maps\<close>
  (\<open>generateSignalMap\<close>): "for each bin, draws total count via Poisson(expectedCounts[bin]),
  then samples pixel locations from templateMap treated as a categorical distribution".
  The spec defines it for an array of expected counts; any other value is a TypeError.
\<close>

definition astro_generate_event_maps ::
  "'g np_random \<Rightarrow> 'g pixel_sampler \<Rightarrow> 'g generate_event_maps" where
  "astro_generate_event_maps R S s g =
     (case astro_nevents_expected s of
        PyTuple vs \<Rightarrow> (Inl TypeError, g)
      | PyArray lam \<Rightarrow>
          (case np_poisson R lam g of
             (Inl err, g1) \<Rightarrow> (Inl err, g1)
           | (Inr totals, g1) \<Rightarrow>
               place_events (\<lambda>b. template_pixels S (astro_normalized_counts_map s))
                 (length (astro_normalized_counts_map s)) 0 totals g1))"

text \<open>
  What the theorems need of the pixel samplers: asked for \<open>n\<close> pixels they return \<open>n\<close>
  pixel numbers of the map (of a template that has pixels).
\<close>

definition atm_pixels_ok :: "'g pixel_sampler \<Rightarrow> nat \<Rightarrow> bool" where
  "atm_pixels_ok S npix =
     (\<forall>b n g. length (fst (atm_pixels S b n g)) = n \<and>
              (\<forall>p \<in> set (fst (atm_pixels S b n g)). p < npix))"

definition template_pixels_ok :: "'g pixel_sampler \<Rightarrow> bool" where
  "template_pixels_ok S =
     (\<forall>t n g. t \<noteq> [] \<longrightarrow>
        length (fst (template_pixels S t n g)) = n \<and>
        (\<forall>p \<in> set (fst (template_pixels S t n g)). p < length t))"

text \<open>A sampler to run the generators on: every event falls on pixel 0.\<close>

definition first_pixel :: "'g pixel_sampler" where
  "first_pixel =
     \<lparr> atm_pixels = (\<lambda>b n g. (replicate n 0, g)),
       template_pixels = (\<lambda>t n g. (replicate n 0, g)) \<rparr>"

text \<open>
  Modelled from the spec: \<^verbatim>\<open>Likelihood.py\<close> (\<^verbatim>\<open>minimize__lnL\<close>, the spec's
  \<open>fit\<close>) is not among the sources; only the test that calls it is. The spec: "numerically
  maximizes logLikelihood over the bounded fraction vector (one free parameter per energy
  bin in range) ...; testStatistic = 2 x (logLikelihood at best fit - logLikelihood at the
  all-zero reference vector)". The log-likelihood and the optimizer are parameters.
\<close>

definition fit ::
  "(real list \<Rightarrow> real list list \<Rightarrow> real list \<Rightarrow> nat \<Rightarrow> nat \<Rightarrow> nat \<Rightarrow> real) \<Rightarrow>
   ((real list \<Rightarrow> real) \<Rightarrow> nat \<Rightarrow> real list) \<Rightarrow>
   real list list \<Rightarrow> real list \<Rightarrow> nat \<Rightarrow> nat \<Rightarrow> nat \<Rightarrow> real list \<times> real" where
  "fit logLikelihood optimizer observedCrossCorrelation observedCountsPerBin multipoleMin
       energyBinMin energyBinMax =
     (let objective = (\<lambda>f. logLikelihood f observedCrossCorrelation observedCountsPerBin
                             multipoleMin energyBinMin energyBinMax);
          bestFit = optimizer objective (energyBinMax - energyBinMin)
      in (bestFit,
          2 * (objective bestFit - objective (replicate (energyBinMax - energyBinMin) 0))))"

text \<open>
  A small configuration to run the function on: one energy bin from \<open>10\<^sup>2\<close> to
  \<open>10\<^sup>9\<close> GeV, twelve pixels, and an event of log energy 3 at a chosen zenith angle.
\<close>

definition coarse_defaults :: Defaults where
  "coarse_defaults = \<lparr> NEbin = 1, NSIDE = 1, map_logE_edge = [2, 9] \<rparr>"

text \<open>
  The binning of \<^verbatim>\<open>analyzeICdata.py\<close> (lines 6 and 10): seven bins of one decade
  each, \<^verbatim>\<open>np.linspace(2, 9, 8)\<close>, at \<^verbatim>\<open>NSIDE = 128\<close>.
\<close>

definition analysis_defaults :: Defaults where
  "analysis_defaults = \<lparr> NEbin = 7, NSIDE = 128, map_logE_edge = [2, 3, 4, 5, 6, 7, 8, 9] \<rparr>"


definition sample_event :: "real \<Rightarrow> event" where
  "sample_event z = \<lparr> ev_logE = 3, ev_ra = 0, ev_dec = 0, ev_zenith = z \<rparr>"

section \<open>Properties of the power-law draw\<close>






section \<open>Properties of the effective-area lookup\<close>

lemma searchsorted_grid:
  assumes "k \<le> n" "\<And>i. i < k \<Longrightarrow> f i < v" "\<And>i. k \<le> i \<Longrightarrow> i < n \<Longrightarrow> \<not> f i < v"
  shows "searchsorted (map f [0..<n]) v = k"
proof -
  have split: "[0..<n] = [0..<k] @ [k..<n]"
    using assms(1) by (metis le0 upt_add_eq_append le_add_diff_inverse)
  have a: "filter (\<lambda>x. x < v) (map f [0..<k]) = map f [0..<k]"
    using assms(2) by (auto simp: filter_id_conv)
  have b: "filter (\<lambda>x. x < v) (map f [k..<n]) = []"
    using assms(3) by (auto simp: filter_empty_conv)
  show ?thesis
    unfolding searchsorted_def split map_append filter_append a b by simp
qed


lemma searchsorted_le_length: "searchsorted a v \<le> length a"
  by (simp add: searchsorted_def)

lemma sorted_filter_less_takeWhile:
  "sorted a \<Longrightarrow> filter (\<lambda>x. x < v) a = takeWhile (\<lambda>x. x < (v::real)) a"
proof (induction a)
  case Nil
  then show ?case by simp
next
  case (Cons x xs)
  show ?case
  proof (cases "x < v")
    case True
    with Cons show ?thesis by simp
  next
    case False
    with Cons.prems have "\<forall>y \<in> set xs. \<not> y < v"
      by fastforce
    then have "filter (\<lambda>x. x < v) xs = []"
      by (simp add: filter_empty_conv)
    with False show ?thesis by simp
  qed
qed

lemma searchsorted_below:
  assumes "sorted a" "i < searchsorted a v"
  shows "a ! i < v"
proof -
  have eq: "searchsorted a v = length (takeWhile (\<lambda>x. x < v) a)"
    using assms(1) by (simp add: searchsorted_def sorted_filter_less_takeWhile)
  with assms(2) have i: "i < length (takeWhile (\<lambda>x. x < v) a)"
    by simp
  then have "takeWhile (\<lambda>x. x < v) a ! i = a ! i"
    by (rule takeWhile_nth)
  moreover have "takeWhile (\<lambda>x. x < v) a ! i \<in> set (takeWhile (\<lambda>x. x < v) a)"
    using i by (rule nth_mem)
  ultimately show ?thesis
    by (metis set_takeWhileD)
qed

lemma searchsorted_above:
  assumes "sorted a" "searchsorted a v \<le> i" "i < length a"
  shows "v \<le> a ! i"
proof -
  let ?k = "searchsorted a v"
  have eq: "?k = length (takeWhile (\<lambda>x. x < v) a)"
    using assms(1) by (simp add: searchsorted_def sorted_filter_less_takeWhile)
  have k: "?k < length a"
    using assms(2,3) by simp
  then have "\<not> a ! ?k < v"
    unfolding eq by (rule nth_length_takeWhile)
  moreover have "a ! ?k \<le> a ! i"
    using assms by (simp add: sorted_iff_nth_mono)
  ultimately show ?thesis
    by simp
qed

lemma searchsorted_positive:
  assumes "a \<noteq> []" "a ! 0 < v"
  shows "0 < searchsorted a v"
proof -
  have "a ! 0 \<in> set (filter (\<lambda>x. x < v) a)"
    using assms by simp
  then show ?thesis
    unfolding searchsorted_def by (metis length_pos_if_in_set)
qed

lemma np_index_in_range:
  "0 \<le> i \<Longrightarrow> i < int (length xs) \<Longrightarrow> np_index xs i = Inr (xs ! nat i)"
  by (simp add: np_index_def resolve_index_def)

text \<open>
  Claim C6, as amended. The lookup has no range check of its own. For an energy-bin index
  within the table's rows and a cosine strictly above the first lower edge (any such real
  number, also one above 1), it raises nothing and returns the table entry of that row
  and of the zenith bin whose lower edge is the last one strictly below the cosine; a
  cosine above every lower edge falls in the last bin.
\<close>

theorem Aeff_lookup_containing_bin:
  assumes "sorted (cosZenith_min T)"
    and "length (cosZenith_min T) = 200"
    and "length (Aeff_table T) = nE * 200"
    and "0 \<le> index_E" and "index_E < int nE"
    and "cosZenith_min T ! 0 < c"
  shows "\<exists>k < 200.
           Aeff_lookup T index_E c = Inr (Aeff_table T ! (nat index_E * 200 + k)) \<and>
           cosZenith_min T ! k < c \<and>
           (Suc k < 200 \<longrightarrow> c \<le> cosZenith_min T ! Suc k)"
proof -
  let ?s = "searchsorted (cosZenith_min T) c"
  have ne: "cosZenith_min T \<noteq> []"
    using assms(2) by auto
  have pos: "0 < ?s"
    using ne assms(6) by (rule searchsorted_positive)
  have le: "?s \<le> 200"
    using searchsorted_le_length [of "cosZenith_min T" c] assms(2) by simp
  define k where "k = ?s - 1"
  have k: "k < 200" "Suc k = ?s"
    using pos le by (simp_all add: k_def)
  have below: "cosZenith_min T ! k < c"
    using assms(1) k(2) by (intro searchsorted_below) simp_all
  have above: "Suc k < 200 \<longrightarrow> c \<le> cosZenith_min T ! Suc k"
    using assms(1,2) k(2) by (auto intro: searchsorted_above)
  have idx: "index_E * 200 + index_coszenith (cosZenith_min T) c = int (nat index_E * 200 + k)"
    using assms(4) k(2) pos by (simp add: index_coszenith_def)
  have "nat index_E < nE"
    using assms(4,5) by simp
  then have "nat index_E * 200 + 200 \<le> nE * 200"
    by (metis Suc_leI mult_Suc mult_le_mono1 add.commute)
  then have inr: "nat index_E * 200 + k < length (Aeff_table T)"
    using k(1) assms(3) by simp
  have "np_index (Aeff_table T) (int (nat index_E * 200 + k)) =
        Inr (Aeff_table T ! nat (int (nat index_E * 200 + k)))"
  proof (rule np_index_in_range)
    show "0 \<le> int (nat index_E * 200 + k)"
      by (rule of_nat_0_le_iff)
    show "int (nat index_E * 200 + k) < int (length (Aeff_table T))"
      using inr by (simp only: of_nat_less_iff)
  qed
  then have "Aeff_lookup T index_E c = Inr (Aeff_table T ! (nat index_E * 200 + k))"
    unfolding Aeff_lookup_def idx by (simp only: nat_int)
  with k(1) below above show ?thesis
    by blast
qed

lemma regular_cos_edges_sorted: "sorted regular_cos_edges"
  unfolding regular_cos_edges_def
  by (auto simp: sorted_iff_nth_mono field_simps)

lemma regular_cos_edges_length: "length regular_cos_edges = 200"
  by (simp add: regular_cos_edges_def)

lemma regular_cos_edges_half: "searchsorted regular_cos_edges (1 / 2) = 150"
  unfolding regular_cos_edges_def
  by (rule searchsorted_grid) (auto simp: field_simps)

lemma regular_cos_edges_two: "searchsorted regular_cos_edges 2 = 200"
  unfolding regular_cos_edges_def
  by (rule searchsorted_grid) (auto simp: field_simps)

text \<open>
  The claim as stated fails: a cosine of 2 is answered with the last zenith bin of the
  row, and the energy-bin index -1 with an entry of the last row (the flat index is
  negative and counts from the end of the table).
\<close>

theorem Aeff_lookup_no_range_error:
  "\<not> (- 1 \<le> (2::real) \<and> (2::real) \<le> 1) \<and>
   Aeff_lookup numbered_tables 0 2 = Inr 199 \<and>
   Aeff_lookup numbered_tables (- 1) (1 / 2) = Inr 13949"
  by (simp add: Aeff_lookup_def index_coszenith_def numbered_tables_def
      regular_cos_edges_two regular_cos_edges_half np_index_def resolve_index_def)

theorem Aeff_lookup_containing_bin_witness:
  "sorted (cosZenith_min numbered_tables) \<and>
   length (cosZenith_min numbered_tables) = 200 \<and>
   length (Aeff_table numbered_tables) = 70 * 200 \<and>
   (0::int) \<le> 3 \<and> (3::int) < int 70 \<and>
   cosZenith_min numbered_tables ! 0 < 1 / 2 \<and>
   (\<exists>k < 200.
      Aeff_lookup numbered_tables 3 (1 / 2) =
        Inr (Aeff_table numbered_tables ! (nat 3 * 200 + k)) \<and>
      cosZenith_min numbered_tables ! k < 1 / 2 \<and>
      (Suc k < 200 \<longrightarrow> 1 / 2 \<le> cosZenith_min numbered_tables ! Suc k)) \<and>
   Aeff_lookup numbered_tables 3 (1 / 2) = Inr 749"
proof -
  have h1: "sorted (cosZenith_min numbered_tables)"
    by (simp add: numbered_tables_def regular_cos_edges_sorted)
  have h2: "length (cosZenith_min numbered_tables) = 200"
    by (simp add: numbered_tables_def regular_cos_edges_length)
  have h3: "length (Aeff_table numbered_tables) = 70 * 200"
    by (simp add: numbered_tables_def)
  have h4: "(0::int) \<le> 3" and h5: "(3::int) < int 70"
    by simp_all
  have h6: "cosZenith_min numbered_tables ! 0 < 1 / 2"
    by (simp add: numbered_tables_def regular_cos_edges_def)
  have v: "Aeff_lookup numbered_tables 3 (1 / 2) = Inr 749"
    by (simp add: Aeff_lookup_def index_coszenith_def numbered_tables_def
        regular_cos_edges_half np_index_def resolve_index_def)
  show ?thesis
    using Aeff_lookup_containing_bin [OF h1 h2 h3 h4 h5 h6] h1 h2 h3 h6 v
    by simp
qed

section \<open>Properties of the map-building loop\<close>

lemma resolve_index_less: "resolve_index n i = Inr r \<Longrightarrow> r < n"
  by (auto simp: resolve_index_def split: if_splits)

lemma resolve_index_of_nat: "p < n \<Longrightarrow> resolve_index n (int p) = Inr p"
  by (simp add: resolve_index_def)

lemma add_at_in_range:
  assumes "resolve_index (length m) e = Inr r" "p < length (m ! r)"
  shows "add_at f m e (int p) = Inr (m[r := (m ! r)[p := f (m ! r ! p)]])"
  using assms by (simp add: add_at_def resolve_index_of_nat)

lemma np_index_defined:
  assumes "- int (length xs) \<le> i" "i < int (length xs)"
  shows "\<exists>v. np_index xs i = Inr v"
proof (cases "0 \<le> i")
  case True
  with assms show ?thesis by (simp add: np_index_def resolve_index_def)
next
  case False
  with assms show ?thesis by (simp add: np_index_def resolve_index_def)
qed

lemma check_event_lines_succeeds:
  assumes "index_E_Aeff_table T ev + 1 < int (length (logEmin T))"
    and "searchsorted (cosZenith_min T) (cos (radians (ev_zenith ev))) < length (cosZenith_min T)"
  shows "\<exists>e0 e1 c0 c1. check_event_lines year T i ev aeff =
           Inr [CheckEvent year i,
                Energy (ev_logE ev) (index_E_Aeff_table T ev) e0 e1,
                Coszenith (cos (radians (ev_zenith ev))) (index_coszenith_Aeff_table T ev) c0 c1,
                Aeff aeff]"
proof -
  let ?iE = "index_E_Aeff_table T ev" and ?ic = "index_coszenith_Aeff_table T ev"
  have iE0: "0 \<le> ?iE"
    by (simp add: index_E_Aeff_table_def Let_def)
  obtain e0 where e0: "np_index (logEmin T) ?iE = Inr e0"
    using iE0 assms(1) np_index_defined [of "logEmin T" ?iE] by auto
  obtain e1 where e1: "np_index (logEmin T) (?iE + 1) = Inr e1"
    using iE0 assms(1) np_index_defined [of "logEmin T" "?iE + 1"] by auto
  have ic: "- 1 \<le> ?ic" "?ic + 1 < int (length (cosZenith_min T))"
    using assms(2) by (simp_all add: index_coszenith_Aeff_table_def index_coszenith_def)
  obtain c0 where c0: "np_index (cosZenith_min T) ?ic = Inr c0"
    using ic np_index_defined [of "cosZenith_min T" ?ic] by auto
  obtain c1 where c1: "np_index (cosZenith_min T) (?ic + 1) = Inr c1"
    using ic np_index_defined [of "cosZenith_min T" "?ic + 1"] by auto
  show ?thesis
    by (simp add: check_event_lines_def Let_def e0 e1 c0 c1)
qed

text \<open>
  Claim C7, as amended. An event whose effective area is zero and whose zenith angle
  exceeds 90 degrees changes neither map: the step only prints the diagnostic (four lines
  when the table edges next to the event's bins exist, an IndexError otherwise) and does
  not divide. Every other event whose energy bin and pixel lie in the maps adds 1 to its
  pixel of the counts map and \<open>1. / Aeff\<close> to its pixel of the flux map and changes no
  other entry; the quotient is the finite \<open>1 / Aeff\<close> when the area is not zero.
\<close>

theorem put_event_exclusion_rule:
  "(aeff = 0 \<and> ev_zenith ev > 90 \<longrightarrow>
      put_event year D T ang2pix (fluxmap, countsmap, out) (i, ev, aeff) =
        (case check_event_lines year T i ev aeff of
           Inl err \<Rightarrow> Inl err
         | Inr ls \<Rightarrow> Inr (fluxmap, countsmap, out @ ls))) \<and>
   (aeff = 0 \<and> ev_zenith ev > 90 \<and>
    index_E_Aeff_table T ev + 1 < int (length (logEmin T)) \<and>
    searchsorted (cosZenith_min T) (cos (radians (ev_zenith ev))) < length (cosZenith_min T) \<longrightarrow>
      (\<exists>e0 e1 c0 c1.
         put_event year D T ang2pix (fluxmap, countsmap, out) (i, ev, aeff) =
           Inr (fluxmap, countsmap,
                out @ [CheckEvent year i,
                       Energy (ev_logE ev) (index_E_Aeff_table T ev) e0 e1,
                       Coszenith (cos (radians (ev_zenith ev)))
                         (index_coszenith_Aeff_table T ev) c0 c1,
                       Aeff aeff]))) \<and>
   (\<not> (aeff = 0 \<and> ev_zenith ev > 90) \<and>
    resolve_index (length fluxmap) (index_map_logE D ev) = Inr r \<and>
    length countsmap = length fluxmap \<and>
    index_map_pixel ang2pix ev = int p \<and>
    p < length (fluxmap ! r) \<and> p < length (countsmap ! r) \<longrightarrow>
      put_event year D T ang2pix (fluxmap, countsmap, out) (i, ev, aeff) =
        Inr (fluxmap[r := (fluxmap ! r)[p := np_add (fluxmap ! r ! p) (one_over aeff)]],
             countsmap[r := (countsmap ! r)[p := countsmap ! r ! p + 1]],
             out)) \<and>
   (aeff \<noteq> 0 \<longrightarrow> one_over aeff = Finite (1 / aeff))"
proof (intro conjI impI)
  assume "aeff = 0 \<and> ev_zenith ev > 90"
  then show "put_event year D T ang2pix (fluxmap, countsmap, out) (i, ev, aeff) =
        (case check_event_lines year T i ev aeff of
           Inl err \<Rightarrow> Inl err
         | Inr ls \<Rightarrow> Inr (fluxmap, countsmap, out @ ls))"
    by (simp add: put_event_def)
next
  assume a: "aeff = 0 \<and> ev_zenith ev > 90 \<and>
    index_E_Aeff_table T ev + 1 < int (length (logEmin T)) \<and>
    searchsorted (cosZenith_min T) (cos (radians (ev_zenith ev))) < length (cosZenith_min T)"
  then obtain e0 e1 c0 c1 where "check_event_lines year T i ev aeff =
           Inr [CheckEvent year i,
                Energy (ev_logE ev) (index_E_Aeff_table T ev) e0 e1,
                Coszenith (cos (radians (ev_zenith ev))) (index_coszenith_Aeff_table T ev) c0 c1,
                Aeff aeff]"
    using check_event_lines_succeeds [of T ev year i aeff] by blast
  with a show "\<exists>e0 e1 c0 c1.
         put_event year D T ang2pix (fluxmap, countsmap, out) (i, ev, aeff) =
           Inr (fluxmap, countsmap,
                out @ [CheckEvent year i,
                       Energy (ev_logE ev) (index_E_Aeff_table T ev) e0 e1,
                       Coszenith (cos (radians (ev_zenith ev)))
                         (index_coszenith_Aeff_table T ev) c0 c1,
                       Aeff aeff])"
    by (simp add: put_event_def)
next
  assume b: "\<not> (aeff = 0 \<and> ev_zenith ev > 90) \<and>
    resolve_index (length fluxmap) (index_map_logE D ev) = Inr r \<and>
    length countsmap = length fluxmap \<and>
    index_map_pixel ang2pix ev = int p \<and>
    p < length (fluxmap ! r) \<and> p < length (countsmap ! r)"
  then have f: "add_at (\<lambda>v. np_add v (one_over aeff)) fluxmap (index_map_logE D ev) (int p) =
      Inr (fluxmap[r := (fluxmap ! r)[p := np_add (fluxmap ! r ! p) (one_over aeff)]])"
    by (intro add_at_in_range) simp_all
  from b have c: "add_at (\<lambda>v. v + 1) countsmap (index_map_logE D ev) (int p) =
      Inr (countsmap[r := (countsmap ! r)[p := countsmap ! r ! p + 1]])"
    by (intro add_at_in_range) simp_all
  from b f c show "put_event year D T ang2pix (fluxmap, countsmap, out) (i, ev, aeff) =
        Inr (fluxmap[r := (fluxmap ! r)[p := np_add (fluxmap ! r ! p) (one_over aeff)]],
             countsmap[r := (countsmap ! r)[p := countsmap ! r ! p + 1]],
             out)"
    by (auto simp: put_event_def)
next
  assume "aeff \<noteq> 0"
  then show "one_over aeff = Finite (1 / aeff)"
    by (simp add: one_over_def)
qed

lemma logEmin_grid_three: "searchsorted (map (\<lambda>i. 2 + real i / 10) [0..<70]) 3 = 10"
  by (rule searchsorted_grid) (auto simp: field_simps)

lemma regular_cos_edges_minus_half: "searchsorted regular_cos_edges (- (1 / 2)) = 50"
  unfolding regular_cos_edges_def
  by (rule searchsorted_grid) (auto simp: field_simps)

lemma cos_radians_60: "cos (radians 60) = 1 / 2"
  by (simp add: radians_def cos_60)

lemma cos_radians_120: "cos (radians 120) = - (1 / 2)"
  by (simp add: radians_def cos_120)

lemma Aeff_event_flat_60: "Aeff_event (flat_tables a) (sample_event 60) = Inr a"
  by (simp add: Aeff_event_def Aeff_lookup_def index_E_Aeff_table_def index_coszenith_def
      flat_tables_def sample_event_def logEmin_grid_three cos_radians_60
      regular_cos_edges_half np_index_def resolve_index_def)

lemma index_map_logE_sample: "index_map_logE coarse_defaults (sample_event z) = 0"
  by (simp add: index_map_logE_def coarse_defaults_def sample_event_def searchsorted_def)

lemma coarse_defaults_fields:
  "NEbin coarse_defaults = 1" "nside2npix (NSIDE coarse_defaults) = 12"
  by (simp_all add: coarse_defaults_def nside2npix_def)

lemma sample_event_zenith: "ev_zenith (sample_event z) = z"
  by (simp add: sample_event_def)

lemma index_map_pixel_const: "index_map_pixel (\<lambda>theta phi. q) ev = int q"
  by (simp add: index_map_pixel_def)

text \<open>
  The claim as stated fails: an event of zero effective area at a zenith angle of 60
  degrees is counted, and its flux entry is the quotient by zero.
\<close>

theorem zero_area_event_is_counted:
  "getFlux_Countmaps ''IC86-2011'' coarse_defaults (flat_tables 0) (\<lambda>theta phi. 0)
     [sample_event 60] =
   Inr ([(replicate 12 (Finite 0))[0 := PosInf]], [(replicate 12 0)[0 := 1]], [])"
proof -
  have "put_event ''IC86-2011'' coarse_defaults (flat_tables 0) (\<lambda>theta phi. 0)
          ([replicate 12 (Finite 0)], [replicate 12 0], []) (0, sample_event 60, 0) =
        Inr ([(replicate 12 (Finite 0))[0 := PosInf]], [(replicate 12 0)[0 := 1]], [])"
    by (simp add: put_event_def sample_event_zenith index_map_logE_sample
        index_map_pixel_const add_at_def resolve_index_def one_over_def)
  then show ?thesis
    by (simp add: getFlux_Countmaps_def Aeff_event_flat_60 coarse_defaults_fields)
qed

lemma index_E_flat_sample: "index_E_Aeff_table (flat_tables a) (sample_event z) = 9"
  by (simp add: index_E_Aeff_table_def flat_tables_def sample_event_def logEmin_grid_three)

lemma flat_tables_lengths:
  "length (logEmin (flat_tables a)) = 70" "length (cosZenith_min (flat_tables a)) = 200"
  "cosZenith_min (flat_tables a) = regular_cos_edges"
  by (simp_all add: flat_tables_def regular_cos_edges_length)

theorem put_event_exclusion_rule_witness:
  "ev_zenith (sample_event 120) > 90 \<and>
   index_E_Aeff_table (flat_tables 0) (sample_event 120) + 1
     < int (length (logEmin (flat_tables 0))) \<and>
   searchsorted (cosZenith_min (flat_tables 0)) (cos (radians (ev_zenith (sample_event 120))))
     < length (cosZenith_min (flat_tables 0)) \<and>
   (\<exists>e0 e1 c0 c1.
      put_event ''IC86-2011'' coarse_defaults (flat_tables 0) (\<lambda>theta phi. 0)
          ([replicate 12 (Finite 0)], [replicate 12 0], []) (0, sample_event 120, 0) =
        Inr ([replicate 12 (Finite 0)], [replicate 12 0],
             [CheckEvent ''IC86-2011'' 0, Energy 3 9 e0 e1, Coszenith (- (1 / 2)) 49 c0 c1,
              Aeff 0])) \<and>
   \<not> ((2::real) = 0 \<and> ev_zenith (sample_event 60) > 90) \<and>
   resolve_index (length [replicate 12 (Finite (0::real))])
     (index_map_logE coarse_defaults (sample_event 60)) = Inr 0 \<and>
   index_map_pixel (\<lambda>theta phi. 0) (sample_event 60) = int 0 \<and>
   put_event ''IC86-2011'' coarse_defaults (flat_tables 2) (\<lambda>theta phi. 0)
       ([replicate 12 (Finite 0)], [replicate 12 0], []) (0, sample_event 60, 2) =
     Inr ([(replicate 12 (Finite 0))[0 := Finite (1 / 2)]], [(replicate 12 0)[0 := 1]], [])"
proof -
  have z: "ev_zenith (sample_event 120) > 90"
    by (simp add: sample_event_zenith)
  have iE: "index_E_Aeff_table (flat_tables 0) (sample_event 120) + 1
      < int (length (logEmin (flat_tables 0)))"
    by (simp add: index_E_flat_sample flat_tables_lengths)
  have ic: "searchsorted (cosZenith_min (flat_tables 0))
      (cos (radians (ev_zenith (sample_event 120)))) < length (cosZenith_min (flat_tables 0))"
    by (simp add: sample_event_zenith cos_radians_120 flat_tables_lengths
        regular_cos_edges_minus_half regular_cos_edges_length)
  have ev: "ev_logE (sample_event 120) = 3"
    by (simp add: sample_event_def)
  have ics: "index_coszenith_Aeff_table (flat_tables 0) (sample_event 120) = 49"
    by (simp add: index_coszenith_Aeff_table_def index_coszenith_def sample_event_zenith
        cos_radians_120 flat_tables_lengths regular_cos_edges_minus_half)
  have excluded: "\<exists>e0 e1 c0 c1.
      put_event ''IC86-2011'' coarse_defaults (flat_tables 0) (\<lambda>theta phi. 0)
          ([replicate 12 (Finite 0)], [replicate 12 0], []) (0, sample_event 120, 0) =
        Inr ([replicate 12 (Finite 0)], [replicate 12 0],
             [CheckEvent ''IC86-2011'' 0, Energy 3 9 e0 e1, Coszenith (- (1 / 2)) 49 c0 c1,
              Aeff 0])"
    using put_event_exclusion_rule [where aeff = 0 and ev = "sample_event 120"
        and T = "flat_tables 0" and year = "''IC86-2011''" and D = coarse_defaults
        and ?ang2pix = "\<lambda>theta phi. 0" and fluxmap = "[replicate 12 (Finite 0)]"
        and countsmap = "[replicate 12 0]" and out = "[]" and i = 0,
        THEN conjunct2, THEN conjunct1, THEN mp,
        OF conjI [OF refl conjI [OF z conjI [OF iE ic]]]]
    by (simp add: ev ics index_E_flat_sample sample_event_zenith cos_radians_120)
  have nz: "\<not> ((2::real) = 0 \<and> ev_zenith (sample_event 60) > 90)"
    by simp
  have r: "resolve_index (length [replicate 12 (Finite (0::real))])
      (index_map_logE coarse_defaults (sample_event 60)) = Inr 0"
    by (simp add: index_map_logE_sample resolve_index_def)
  have p: "index_map_pixel (\<lambda>theta phi. 0) (sample_event 60) = int 0"
    by (simp add: index_map_pixel_const)
  have counted: "put_event ''IC86-2011'' coarse_defaults (flat_tables 2) (\<lambda>theta phi. 0)
       ([replicate 12 (Finite 0)], [replicate 12 0], []) (0, sample_event 60, 2) =
     Inr ([(replicate 12 (Finite 0))[0 := Finite (1 / 2)]], [(replicate 12 0)[0 := 1]], [])"
  proof -
    have h: "\<not> ((2::real) = 0 \<and> ev_zenith (sample_event 60) > 90) \<and>
        resolve_index (length [replicate 12 (Finite (0::real))])
          (index_map_logE coarse_defaults (sample_event 60)) = Inr 0 \<and>
        length [replicate 12 (0::real)] = length [replicate 12 (Finite (0::real))] \<and>
        index_map_pixel (\<lambda>theta phi. 0) (sample_event 60) = int 0 \<and>
        0 < length ([replicate 12 (Finite (0::real))] ! 0) \<and>
        0 < length ([replicate 12 (0::real)] ! 0)"
      using nz r p by simp
    show ?thesis
      using put_event_exclusion_rule [where aeff = 2 and ev = "sample_event 60"
        and T = "flat_tables 2" and year = "''IC86-2011''" and D = coarse_defaults
        and ?ang2pix = "\<lambda>theta phi. 0" and fluxmap = "[replicate 12 (Finite 0)]"
        and countsmap = "[replicate 12 0]" and out = "[]" and i = 0 and r = 0 and p = 0,
        THEN conjunct2, THEN conjunct2, THEN conjunct1, THEN mp, OF h]
      by (simp add: one_over_def)
  qed
  from z iE ic excluded nz r p counted show ?thesis
    by (intro conjI)
qed

section \<open>Properties of the generated maps\<close>

lemma accumulate_total:
  assumes "\<forall>p \<in> set ps. p < length m"
  shows "\<exists>m'. accumulate m ps = Inr m' \<and> length m' = length m \<and>
           sum_list m' = sum_list m + length ps"
  using assms
proof (induction ps arbitrary: m)
  case Nil
  then show ?case by simp
next
  case (Cons p ps)
  let ?m1 = "m[p := m ! p + 1]"
  from Cons.prems have p: "p < length m" and rest: "\<forall>q \<in> set ps. q < length ?m1"
    by simp_all
  from Cons.IH [OF rest] obtain m' where m': "accumulate ?m1 ps = Inr m'"
      "length m' = length ?m1" "sum_list m' = sum_list ?m1 + length ps"
    by blast
  have "sum_list ?m1 = sum_list m + 1"
    using p by (simp add: sum_list_update)
  with m' p show ?case
    by simp
qed

lemma place_events_total:
  assumes "\<And>b n g. length (fst (draw b n g)) = n \<and> (\<forall>p \<in> set (fst (draw b n g)). p < npix)"
  shows "\<exists>ms g'. place_events draw npix b ns g = (Inr ms, g') \<and> length ms = length ns \<and>
           (\<forall>i < length ns. length (ms ! i) = npix \<and> sum_list (ms ! i) = ns ! i)"
proof (induction ns arbitrary: b g)
  case Nil
  then show ?case by simp
next
  case (Cons n ns)
  obtain pixels g1 where d: "draw b n g = (pixels, g1)"
    by (cases "draw b n g")
  from assms [of b n g] d have px: "length pixels = n" "\<forall>p \<in> set pixels. p < length (replicate npix (0::nat))"
    by simp_all
  from accumulate_total [OF px(2)] obtain m where m: "accumulate (replicate npix 0) pixels = Inr m"
      "length m = npix" "sum_list m = n"
    using px(1) by auto
  from Cons.IH [of "Suc b" g1] obtain ms g2 where ms:
      "place_events draw npix (Suc b) ns g1 = (Inr ms, g2)" "length ms = length ns"
      "\<forall>i < length ns. length (ms ! i) = npix \<and> sum_list (ms ! i) = ns ! i"
    by blast
  have run: "place_events draw npix b (n # ns) g = (Inr (m # ms), g2)"
    by (simp add: d m(1) ms(1))
  have "\<forall>i < length (n # ns). length ((m # ms) ! i) = npix \<and> sum_list ((m # ms) ! i) = (n # ns) ! i"
    using m(2,3) ms(3) by (auto simp: nth_Cons split: nat.splits)
  with run ms(2) show ?case
    by simp
qed

lemma np_poisson_nonneg:
  assumes "list_all (\<lambda>x. 0 \<le> x) lam"
  shows "np_poisson R lam g = (Inr (fst (random_poisson R lam g)), snd (random_poisson R lam g))"
proof -
  have "\<not> list_ex (\<lambda>x. x < 0) lam"
    using assms by (auto simp: list_all_iff list_ex_iff)
  then show ?thesis
    by (simp add: np_poisson_def split_beta)
qed

lemma nat_floor_of_nat_list: "map ((\<lambda>x. nat \<lfloor>x\<rfloor>) \<circ> real) ks = ks"
  by (induction ks) simp_all

lemma atm_generate_run:
  assumes "atm_pixels_ok S (nside2npix (NSIDE D))"
    and "atm_nevents_expected s = map real ks"
  shows "\<exists>ms g'. atm_generate_event_maps S D s g = (Inr ms, g') \<and> length ms = length ks \<and>
           (\<forall>i < length ks. length (ms ! i) = nside2npix (NSIDE D) \<and> sum_list (ms ! i) = ks ! i)"
proof -
  have ok: "\<And>b n g. length (fst (atm_pixels S b n g)) = n \<and>
      (\<forall>p \<in> set (fst (atm_pixels S b n g)). p < nside2npix (NSIDE D))"
    using assms(1) unfolding atm_pixels_ok_def by blast
  have "atm_generate_event_maps S D s g =
      place_events (atm_pixels S) (nside2npix (NSIDE D)) 0 ks g"
    by (simp add: atm_generate_event_maps_def assms(2) nat_floor_of_nat_list)
  with place_events_total [of "atm_pixels S" "nside2npix (NSIDE D)" 0 ks g, OF ok]
  show ?thesis
    by simp
qed

lemma astro_generate_run:
  assumes "poisson_ok R" and "template_pixels_ok S"
    and "astro_nevents_expected s = PyArray lam"
    and "list_all (\<lambda>x. 0 \<le> x) lam"
    and "astro_normalized_counts_map s \<noteq> []"
  shows "\<exists>ms g'. astro_generate_event_maps R S s g = (Inr ms, g') \<and> length ms = length lam \<and>
           (\<forall>i < length lam. length (ms ! i) = length (astro_normalized_counts_map s) \<and>
              sum_list (ms ! i) = fst (random_poisson R lam g) ! i)"
proof -
  let ?t = "astro_normalized_counts_map s"
  let ?k = "fst (random_poisson R lam g)" and ?g1 = "snd (random_poisson R lam g)"
  have draw: "np_poisson R lam g = (Inr ?k, ?g1)"
    using assms(4) by (rule np_poisson_nonneg)
  have len: "length ?k = length lam"
    using assms(1) unfolding poisson_ok_def by blast
  have ok: "\<And>b n g. length (fst (template_pixels S ?t n g)) = n \<and>
      (\<forall>p \<in> set (fst (template_pixels S ?t n g)). p < length ?t)"
    using assms(2,5) unfolding template_pixels_ok_def by blast
  have "astro_generate_event_maps R S s g =
      place_events (\<lambda>b. template_pixels S ?t) (length ?t) 0 ?k ?g1"
    by (simp add: astro_generate_event_maps_def assms(3) draw)
  with place_events_total [of "\<lambda>b. template_pixels S ?t" "length ?t" 0 ?k ?g1, OF ok] len
  show ?thesis
    by simp
qed

lemma poisson_length:
  "poisson_ok R \<Longrightarrow> length (fst (random_poisson R lam g)) = length lam"
  unfolding poisson_ok_def by blast


lemma atmEvent_run:
  assumes "list_all (\<lambda>x. 0 \<le> x * duration_year) (atm_nevents_expected s)"
  shows "atmEvent R atm_gen s duration_year g =
     (let k = fst (random_poisson R (map (\<lambda>x. x * duration_year) (atm_nevents_expected s)) g);
          g1 = snd (random_poisson R (map (\<lambda>x. x * duration_year) (atm_nevents_expected s)) g);
          s' = s\<lparr>atm_nevents_expected := map real k\<rparr>
      in (fst (atm_gen s' g1), s', snd (atm_gen s' g1)))"
proof -
  have "list_all (\<lambda>x. 0 \<le> x) (map (\<lambda>x. x * duration_year) (atm_nevents_expected s))"
    using assms by (simp add: list_all_iff)
  then show ?thesis
    by (simp add: atmEvent_def np_poisson_nonneg Let_def split_beta)
qed

lemma astroEvent_galaxy_run:
  "astroEvent_galaxy astro_gen s c t g =
     (let s' = s\<lparr>astro_normalized_counts_map := t, astro_nevents_expected := c\<rparr>
      in (fst (astro_gen s' g), s', snd (astro_gen s' g)))"
  by (simp add: astroEvent_galaxy_def Let_def split_beta)

text \<open>
  Claim C3. With the generators of the spec, every map that \<open>atmEvent\<close> and
  \<open>astroEvent_galaxy\<close> return has, in each energy bin, pixel values (natural numbers) whose
  sum is exactly the Poisson count drawn for that bin; the calls return maps, one per bin,
  when the means are not negative.
\<close>

theorem generated_maps_sum_to_drawn_counts:
  assumes "poisson_ok R"
    and "atm_pixels_ok S (nside2npix (NSIDE D))"
    and "template_pixels_ok S"
    and "list_all (\<lambda>x. 0 \<le> x * duration_year) (atm_nevents_expected s)"
    and "list_all (\<lambda>x. 0 \<le> x) intrinsicCounts"
    and "normalized_counts_map \<noteq> []"
  shows "(\<exists>maps s' g'.
            atmEvent R (atm_generate_event_maps S D) s duration_year g = (Inr maps, s', g') \<and>
            length maps = length (atm_nevents_expected s) \<and>
            (\<forall>i < length maps.
               length (maps ! i) = nside2npix (NSIDE D) \<and>
               sum_list (maps ! i) =
                 fst (random_poisson R
                        (map (\<lambda>x. x * duration_year) (atm_nevents_expected s)) g) ! i)) \<and>
         (\<exists>maps s' g'.
            astroEvent_galaxy (astro_generate_event_maps R S) s (PyArray intrinsicCounts)
              normalized_counts_map g = (Inr maps, s', g') \<and>
            length maps = length intrinsicCounts \<and>
            (\<forall>i < length maps.
               length (maps ! i) = length normalized_counts_map \<and>
               sum_list (maps ! i) = fst (random_poisson R intrinsicCounts g) ! i))"
proof (rule conjI)
  let ?lam = "map (\<lambda>x. x * duration_year) (atm_nevents_expected s)"
  let ?k = "fst (random_poisson R ?lam g)" and ?g1 = "snd (random_poisson R ?lam g)"
  let ?s' = "s\<lparr>atm_nevents_expected := map real ?k\<rparr>"
  have len: "length ?k = length (atm_nevents_expected s)"
    using poisson_length [OF assms(1), of ?lam g] by simp
  from atm_generate_run [OF assms(2), of ?s' ?k ?g1]
  obtain ms g2 where ms: "atm_generate_event_maps S D ?s' ?g1 = (Inr ms, g2)"
      "length ms = length ?k"
      "\<forall>i < length ?k. length (ms ! i) = nside2npix (NSIDE D) \<and> sum_list (ms ! i) = ?k ! i"
    by auto
  have "atmEvent R (atm_generate_event_maps S D) s duration_year g = (Inr ms, ?s', g2)"
    by (simp add: atmEvent_run [OF assms(4)] Let_def ms(1))
  with ms(2,3) len show "\<exists>maps s' g'.
            atmEvent R (atm_generate_event_maps S D) s duration_year g = (Inr maps, s', g') \<and>
            length maps = length (atm_nevents_expected s) \<and>
            (\<forall>i < length maps.
               length (maps ! i) = nside2npix (NSIDE D) \<and>
               sum_list (maps ! i) = ?k ! i)"
    by auto
next
  let ?s' = "s\<lparr>astro_normalized_counts_map := normalized_counts_map,
               astro_nevents_expected := PyArray intrinsicCounts\<rparr>"
  from astro_generate_run [OF assms(1,3), of ?s' intrinsicCounts g] assms(5,6)
  obtain ms g2 where ms: "astro_generate_event_maps R S ?s' g = (Inr ms, g2)"
      "length ms = length intrinsicCounts"
      "\<forall>i < length intrinsicCounts. length (ms ! i) = length normalized_counts_map \<and>
         sum_list (ms ! i) = fst (random_poisson R intrinsicCounts g) ! i"
    by auto
  have "astroEvent_galaxy (astro_generate_event_maps R S) s (PyArray intrinsicCounts)
          normalized_counts_map g = (Inr ms, ?s', g2)"
    by (simp add: astroEvent_galaxy_run Let_def ms(1))
  with ms(2,3) show "\<exists>maps s' g'.
            astroEvent_galaxy (astro_generate_event_maps R S) s (PyArray intrinsicCounts)
              normalized_counts_map g = (Inr maps, s', g') \<and>
            length maps = length intrinsicCounts \<and>
            (\<forall>i < length maps.
               length (maps ! i) = length normalized_counts_map \<and>
               sum_list (maps ! i) = fst (random_poisson R intrinsicCounts g) ! i)"
    by auto
qed

lemma counter_random_poisson_ok: "poisson_ok counter_random"
  by (simp add: poisson_ok_def counter_random_def)

lemma first_pixel_atm_ok: "0 < npix \<Longrightarrow> atm_pixels_ok first_pixel npix"
  by (simp add: atm_pixels_ok_def first_pixel_def)

lemma first_pixel_template_ok: "template_pixels_ok first_pixel"
  by (simp add: template_pixels_ok_def first_pixel_def)

theorem generated_maps_sum_to_drawn_counts_witness:
  "poisson_ok (counter_random :: nat np_random) \<and>
   atm_pixels_ok (first_pixel :: nat pixel_sampler) (nside2npix (NSIDE coarse_defaults)) \<and>
   template_pixels_ok (first_pixel :: nat pixel_sampler) \<and>
   list_all (\<lambda>x. 0 \<le> x * 2) (atm_nevents_expected (EventGenerator_init [3, 0] [1, 1])) \<and>
   list_all (\<lambda>x. 0 \<le> x) [2, 5 :: real] \<and>
   [1 / 2, 1 / 2 :: real] \<noteq> [] \<and>
   (\<exists>maps s' g'.
      atmEvent counter_random (atm_generate_event_maps first_pixel coarse_defaults)
        (EventGenerator_init [3, 0] [1, 1]) 2 0 = (Inr maps, s', g') \<and>
      length maps = 2 \<and> sum_list (maps ! 0) = 6 \<and> sum_list (maps ! 1) = 0) \<and>
   (\<exists>maps s' g'.
      astroEvent_galaxy (astro_generate_event_maps counter_random first_pixel)
        (EventGenerator_init [3, 0] [1, 1]) (PyArray [2, 5]) [1 / 2, 1 / 2] 0 = (Inr maps, s', g') \<and>
      length maps = 2 \<and> sum_list (maps ! 0) = 2 \<and> sum_list (maps ! 1) = 5)"
proof -
  have h1: "poisson_ok (counter_random :: nat np_random)"
    by (rule counter_random_poisson_ok)
  have h2: "atm_pixels_ok (first_pixel :: nat pixel_sampler) (nside2npix (NSIDE coarse_defaults))"
    by (simp add: first_pixel_atm_ok coarse_defaults_def nside2npix_def)
  have h3: "template_pixels_ok (first_pixel :: nat pixel_sampler)"
    by (rule first_pixel_template_ok)
  have h4: "list_all (\<lambda>x. 0 \<le> x * 2) (atm_nevents_expected (EventGenerator_init [3, 0] [1, 1]))"
    by (simp add: EventGenerator_init_def)
  have h5: "list_all (\<lambda>x. 0 \<le> x) [2, 5 :: real]"
    by simp
  have h6: "[1 / 2, 1 / 2 :: real] \<noteq> []"
    by simp
  have k1: "fst (random_poisson counter_random
        (map (\<lambda>x. x * 2) (atm_nevents_expected (EventGenerator_init [3, 0] [1, 1]))) (0::nat)) = [6, 0]"
    by (simp add: counter_random_def EventGenerator_init_def)
  have k2: "fst (random_poisson counter_random [2, 5] (0::nat)) = [2, 5]"
    by (simp add: counter_random_def)
  have len: "length (atm_nevents_expected (EventGenerator_init [3, 0] [1, 1])) = 2"
    by (simp add: EventGenerator_init_def)
  note inst = generated_maps_sum_to_drawn_counts [OF h1 h2 h3 h4 h5 h6, of 0, unfolded k1 k2 len]
  from inst [THEN conjunct1] obtain ma sa ga where a:
      "atmEvent counter_random (atm_generate_event_maps first_pixel coarse_defaults)
        (EventGenerator_init [3, 0] [1, 1]) 2 0 = (Inr ma, sa, ga)"
      "length ma = 2"
      "\<forall>i < length ma. length (ma ! i) = nside2npix (NSIDE coarse_defaults) \<and>
         sum_list (ma ! i) = [6, 0] ! i"
    by blast
  from a(2,3) have a': "sum_list (ma ! 0) = 6" "sum_list (ma ! 1) = 0"
    by simp_all
  from inst [THEN conjunct2] obtain mb sb gb where b:
      "astroEvent_galaxy (astro_generate_event_maps counter_random first_pixel)
        (EventGenerator_init [3, 0] [1, 1]) (PyArray [2, 5]) [1 / 2, 1 / 2] 0 = (Inr mb, sb, gb)"
      "length mb = length [2, 5 :: real]"
      "\<forall>i < length mb. length (mb ! i) = length [1 / 2, 1 / 2 :: real] \<and>
         sum_list (mb ! i) = [2, 5] ! i"
    by blast
  from b(2,3) have b': "length mb = 2" "sum_list (mb ! 0) = 2" "sum_list (mb ! 1) = 5"
    by simp_all
  have ea: "\<exists>maps s' g'.
      atmEvent counter_random (atm_generate_event_maps first_pixel coarse_defaults)
        (EventGenerator_init [3, 0] [1, 1]) 2 0 = (Inr maps, s', g') \<and>
      length maps = 2 \<and> sum_list (maps ! 0) = 6 \<and> sum_list (maps ! 1) = 0"
    using a(1,2) a' by blast
  have eb: "\<exists>maps s' g'.
      astroEvent_galaxy (astro_generate_event_maps counter_random first_pixel)
        (EventGenerator_init [3, 0] [1, 1]) (PyArray [2, 5]) [1 / 2, 1 / 2] 0 = (Inr maps, s', g') \<and>
      length maps = 2 \<and> sum_list (maps ! 0) = 2 \<and> sum_list (maps ! 1) = 5"
    using b(1) b' by blast
  from h1 h2 h3 h4 h5 h6 ea eb show ?thesis
    by (intro conjI)
qed

section \<open>Bins without expected events\<close>








section \<open>The expected total of the synthetic data\<close>






section \<open>The argument passed on by the power-law generator\<close>

lemma ln_of_decades:
  "ln (1000000000::real) = 9 * ln 10" "ln (100::real) = 2 * ln 10"
proof -
  have "(1000000000::real) = 10 ^ 9" and "(100::real) = 10 ^ 2"
    by simp_all
  then show "ln (1000000000::real) = 9 * ln 10" "ln (100::real) = 2 * ln 10"
    by (simp_all only: ln_realpow of_nat_numeral)
qed

lemma log_uniform_midpoint:
  "log 10 (exp ((ln 1000000000 - ln 100) * (1 / 2) + ln 100)) = 11 / 2"
proof -
  have "(ln (1000000000::real) - ln 100) * (1 / 2) + ln 100 = (11 / 2) * ln 10"
    unfolding ln_of_decades by (simp add: algebra_simps)
  then have "log 10 (exp ((ln 1000000000 - ln 100) * (1 / 2) + ln 100)) =
      (11 / 2) * ln 10 / ln (10::real)"
    by (simp only: log_def ln_exp)
  then show ?thesis
    by simp
qed

lemma randPowerLaw_one_draw:
  "randPowerLaw counter_random (- 1) 1 100 1000000000 (0::nat) =
     ([exp ((ln 1000000000 - ln 100) * (1 / 2) + ln 100)], 1)"
  by (simp add: randPowerLaw_def counter_random_def Let_def)

lemma histogram_of_midpoint:
  "np_histogram [11 / 2] [2, 3, 4, 5, 6, 7, 8, 9] =
     Inr ([0, 0, 0, 1, 0, 0, 0], [2, 3, 4, 5, 6, 7, 8, 9])"
  by (simp add: np_histogram_def in_bin_def upt_rec)

text \<open>
  Claim C1, on the code. One energy is drawn log-uniformly between \<open>10\<^sup>2\<close> and
  \<open>10\<^sup>9\<close>; it falls in the fourth of the seven bins. What
  \<open>astroEvent_galaxy_powerlaw\<close> hands to \<open>astroEvent_galaxy\<close> as the intrinsic counts is
  the pair of the counts and the bin edges that \<^verbatim>\<open>np.histogram\<close> returns, not the
  array of per-bin counts.
\<close>

theorem powerlaw_passes_histogram_pair:
  "astroEvent_galaxy_powerlaw counter_random astro_gen analysis_defaults s 1
       normalized_counts_map (- 1) 100 1000000000 (0::nat) =
     astroEvent_galaxy astro_gen s
       (PyTuple [PyArray [0, 0, 0, 1, 0, 0, 0], PyArray [2, 3, 4, 5, 6, 7, 8, 9]])
       normalized_counts_map 1 \<and>
   PyTuple [PyArray [0, 0, 0, 1, 0, 0, 0], PyArray [2, 3, 4, 5, 6, 7, 8, 9]]
     \<noteq> PyArray [0, 0, 0, 1, 0, 0, 0]"
proof -
  have edges: "map_logE_edge analysis_defaults = [2, 3, 4, 5, 6, 7, 8, 9]"
    by (simp add: analysis_defaults_def)
  have logs: "map (log 10) [exp ((ln 1000000000 - ln 100) * (1 / 2) + ln 100)] = [11 / 2]"
    by (simp only: list.map log_uniform_midpoint)
  have counts: "map real [0, 0, 0, 1, 0, 0, 0] = [0, 0, 0, 1, 0, 0, 0]"
    by simp
  have "astroEvent_galaxy_powerlaw counter_random astro_gen analysis_defaults s 1
       normalized_counts_map (- 1) 100 1000000000 (0::nat) =
     astroEvent_galaxy astro_gen s
       (PyTuple [PyArray [0, 0, 0, 1, 0, 0, 0], PyArray [2, 3, 4, 5, 6, 7, 8, 9]])
       normalized_counts_map 1"
    by (simp only: astroEvent_galaxy_powerlaw_def randPowerLaw_one_draw Let_def prod.case
        logs edges histogram_of_midpoint sum.case counts)
  then show ?thesis
    by simp
qed

section \<open>The state left by atmEvent\<close>

text \<open>
  Claim C4, on the code. A generator is built with a one-year expectation of 3 events and
  \<open>atmEvent\<close> is called twice for a duration of 2 years, with the random source whose
  Poisson draw is the integer part of the mean. The mean of the first call is 6, the
  expectation times the duration. The call stores the drawn counts as the generator's
  expected numbers, so the second call draws with mean 12, while \<^verbatim>\<open>self.nevts\<close> is
  still 3.
\<close>

theorem atmEvent_overwrites_expected_numbers:
  "(let s0 = EventGenerator_init [3] [0];
        (maps1, s1, g1) = atmEvent counter_random atm_gen s0 2 (0::nat);
        (maps2, s2, g2) = atmEvent counter_random atm_gen s1 2 g1
    in map (\<lambda>x. x * 2) (nevts s0) = [6] \<and>
       atm_nevents_expected s1 = [6] \<and>
       nevts s1 = [3] \<and>
       atm_nevents_expected s2 = [12])"
  by (simp add: atmEvent_def EventGenerator_init_def np_poisson_def counter_random_def
      Let_def split_beta)

section \<open>The test statistic of the fit\<close>

text \<open>
  Claim C2. The test statistic that \<open>fit\<close> returns is twice the difference of the
  log-likelihood at the best-fit fraction vector it returns and the log-likelihood at the
  all-zero vector with one entry per energy bin of the range.
\<close>

theorem fit_test_statistic:
  "snd (fit logLikelihood optimizer w_data Ncount lmin Ebinmin Ebinmax) =
     2 * (logLikelihood (fst (fit logLikelihood optimizer w_data Ncount lmin Ebinmin Ebinmax))
            w_data Ncount lmin Ebinmin Ebinmax
          - logLikelihood (replicate (Ebinmax - Ebinmin) 0) w_data Ncount lmin Ebinmin Ebinmax)"
  by (simp add: fit_def Let_def)

end
